theory Spec2Isabelle
  imports Complex_Main
begin

section \<open>Strings\<close>

text \<open>
  JavaScript strings are modelled as \<^typ>\<open>string\<close>.  Every character the code tests for
  (the shell metacharacters, the characters of a video id, \<open>/\<close>, \<open>.\<close>) is ASCII, so a
  character beyond ASCII is never one of them, whatever its encoding.

  A value that is either a string or \<open>undefined\<close> (a field of a JSON body, the result of a
  function that may return \<open>null\<close>) is a \<^typ>\<open>string option\<close>.
\<close>

definition dq :: string where
  "dq = [CHR 0x22]"

text \<open>JavaScript truthiness of such a value: \<open>undefined\<close>, \<open>null\<close> and \<open>""\<close> are falsy.\<close>

definition truthy :: "string option \<Rightarrow> bool" where
  "truthy v = (case v of None \<Rightarrow> False | Some s \<Rightarrow> s \<noteq> [])"

text \<open>\<open>a || b\<close> where \<open>b\<close> is a string.\<close>

definition js_or :: "string option \<Rightarrow> string \<Rightarrow> string" where
  "js_or a b = (case a of None \<Rightarrow> b | Some s \<Rightarrow> if s \<noteq> [] then s else b)"

text \<open>\<open>xs.join(sep)\<close>\<close>

fun join :: "string \<Rightarrow> string list \<Rightarrow> string" where
  "join sep [] = []"
| "join sep [x] = x"
| "join sep (x # y # ys) = x @ sep @ join sep (y # ys)"

text \<open>\<open>s.startsWith(p)\<close>\<close>

fun startsWith :: "string \<Rightarrow> string \<Rightarrow> bool" where
  "startsWith s [] = True"
| "startsWith [] (p # ps) = False"
| "startsWith (c # cs) (p # ps) = (c = p \<and> startsWith cs ps)"

text \<open>The decimal text of a non-negative integer, as a template literal prints it.\<close>

definition digit_char :: "nat \<Rightarrow> char" where
  "digit_char d = (''0123456789'' ! d)"

fun show_nat :: "nat \<Rightarrow> string" where
  "show_nat n =
     (if n < 10 then [digit_char n] else show_nat (n div 10) @ [digit_char (n mod 10)])"

declare show_nat.simps [simp del]

lemma show_nat_numeral:
  "show_nat (numeral k) =
     (if (numeral k :: nat) < 10 then [digit_char (numeral k)]
      else show_nat (numeral k div 10) @ [digit_char (numeral k mod 10)])"
  by (rule show_nat.simps)

lemma show_nat_small:
  "show_nat 0 = ''0''" "show_nat 1 = ''1''" "show_nat (Suc 0) = ''1''"
  by (simp_all add: show_nat.simps digit_char_def)


section \<open>The sanitizer\<close>

text \<open>
  \<^verbatim>\<open>function sanitizeShellInput(input) { return input.replace(/[`$\\|;&><]/g, ''); }\<close>

  The character class of the regular expression: backtick, dollar, backslash, bar,
  semicolon, ampersand, greater-than, less-than.
\<close>

definition shell_meta :: "char \<Rightarrow> bool" where
  "shell_meta c =
     (c \<in> set [CHR 0x60, CHR ''$'', CHR 0x5C, CHR ''|'', CHR '';'', CHR ''&'', CHR ''>'',
                CHR ''<''])"

text \<open>
  \<open>s.replace(/[cls]/g, rep)\<close> for a one-character class: the string is scanned from the
  left, and every character of the class is replaced by \<open>rep\<close>.
\<close>

fun replace_class :: "(char \<Rightarrow> bool) \<Rightarrow> string \<Rightarrow> string \<Rightarrow> string" where
  "replace_class cls rep [] = []"
| "replace_class cls rep (c # cs) =
     (if cls c then rep @ replace_class cls rep cs else c # replace_class cls rep cs)"

definition sanitizeShellInput :: "string \<Rightarrow> string" where
  "sanitizeShellInput input = replace_class shell_meta [] input"

lemma replace_class_empty: "replace_class cls [] s = filter (\<lambda>c. \<not> cls c) s"
  by (induction s) simp_all

lemma sanitize_filter: "sanitizeShellInput s = filter (\<lambda>c. \<not> shell_meta c) s"
  by (simp add: sanitizeShellInput_def replace_class_empty)

lemma sanitize_clean: "c \<in> set (sanitizeShellInput s) \<Longrightarrow> \<not> shell_meta c"
  by (simp add: sanitize_filter)

text \<open>
  C2.  For every input string, the output of \<open>sanitizeShellInput\<close> contains none of the
  blocked characters (backtick, \<open>$\<close>, backslash, \<open>|\<close>, \<open>;\<close>, \<open>&\<close>, \<open>>\<close>, \<open><\<close>), and it is
  exactly the input's non-blocked characters, in their order.
\<close>

theorem sanitizeShellInput_strips_exactly:
  "(\<forall>c \<in> set (sanitizeShellInput input).
      c \<notin> {CHR 0x60, CHR ''$'', CHR 0x5C, CHR ''|'', CHR '';'', CHR ''&'', CHR ''>'', CHR ''<''})
   \<and> sanitizeShellInput input =
       filter (\<lambda>c. c \<notin> {CHR 0x60, CHR ''$'', CHR 0x5C, CHR ''|'', CHR '';'', CHR ''&'',
                            CHR ''>'', CHR ''<''}) input"
proof -
  have meta: "shell_meta c \<longleftrightarrow>
      c \<in> {CHR 0x60, CHR ''$'', CHR 0x5C, CHR ''|'', CHR '';'', CHR ''&'', CHR ''>'', CHR ''<''}"
    for c by (simp add: shell_meta_def)
  have "\<forall>c \<in> set (sanitizeShellInput input). \<not> shell_meta c"
    by (simp add: sanitize_filter)
  moreover have "sanitizeShellInput input = filter (\<lambda>c. \<not> shell_meta c) input"
    by (rule sanitize_filter)
  ultimately show ?thesis
    unfolding meta by blast
qed

theorem sanitizeShellInput_strips_exactly_witness:
  "CHR ''b'' \<in> set (sanitizeShellInput ''a;b$(c)|d'')
   \<and> CHR ''b'' \<notin> {CHR 0x60, CHR ''$'', CHR 0x5C, CHR ''|'', CHR '';'', CHR ''&'', CHR ''>'',
                     CHR ''<''}
   \<and> sanitizeShellInput ''a;b$(c)|d'' = ''ab(c)d''"
  using sanitizeShellInput_strips_exactly [of "''a;b$(c)|d''"]
  by (simp add: sanitizeShellInput_def shell_meta_def)


section \<open>The source normalizer\<close>

text \<open>The character class \<open>[a-zA-Z0-9_-]\<close> of a video id.\<close>

definition id_char :: "char \<Rightarrow> bool" where
  "id_char c =
     (let n = (of_char c :: nat)
      in (97 \<le> n \<and> n \<le> 122) \<or> (65 \<le> n \<and> n \<le> 90) \<or> (48 \<le> n \<and> n \<le> 57)
         \<or> c = CHR ''_'' \<or> c = CHR ''-'')"

text \<open>Matching a literal at the start of a string; the rest of the string is returned.\<close>

fun strip_prefix :: "string \<Rightarrow> string \<Rightarrow> string option" where
  "strip_prefix [] s = Some s"
| "strip_prefix (p # ps) [] = None"
| "strip_prefix (p # ps) (c # cs) = (if p = c then strip_prefix ps cs else None)"

text \<open>
  The regular expressions of \<open>normalizeUrl\<close> all have the shape
  \<open>/literal([a-zA-Z0-9_-]{11})/\<close>.  \<open>match_id11_here\<close> matches one at the start of the
  string and returns the capture group; \<open>search_id11\<close> is \<open>s.match(re)\<close>: the match at the
  leftmost position where there is one, \<open>None\<close> for \<open>null\<close>.
\<close>

definition match_id11_here :: "string \<Rightarrow> string \<Rightarrow> string option" where
  "match_id11_here lit s =
     (case strip_prefix lit s of
        None \<Rightarrow> None
      | Some rest \<Rightarrow>
          if 11 \<le> length rest \<and> list_all id_char (take 11 rest) then Some (take 11 rest)
          else None)"

fun search_id11 :: "string \<Rightarrow> string \<Rightarrow> string option" where
  "search_id11 lit [] = match_id11_here lit []"
| "search_id11 lit (c # cs) =
     (case match_id11_here lit (c # cs) of
        Some g \<Rightarrow> Some g
      | None \<Rightarrow> search_id11 lit cs)"

text \<open>
  \<^verbatim>\<open>
  function normalizeUrl(url) {
    if (!url) return null;
    const shortsMatch = url.match(/youtube\.com\/shorts\/([a-zA-Z0-9_-]{11})/);
    if (shortsMatch) return `https://www.youtube.com/watch?v=${shortsMatch[1]}`;
    const shortUrlMatch = url.match(/youtu\.be\/([a-zA-Z0-9_-]{11})/);
    if (shortUrlMatch) return `https://www.youtube.com/watch?v=${shortUrlMatch[1]}`;
    const videoMatch = url.match(/youtube\.com\/watch\?v=([a-zA-Z0-9_-]{11})/);
    if (videoMatch) return url;
    return null;
  }
  \<close>
\<close>

definition normalizeUrl :: "string \<Rightarrow> string option" where
  "normalizeUrl url =
     (if url = [] then None
      else
        (case search_id11 ''youtube.com/shorts/'' url of
           Some g \<Rightarrow> Some (''https://www.youtube.com/watch?v='' @ g)
         | None \<Rightarrow>
            (case search_id11 ''youtu.be/'' url of
               Some g \<Rightarrow> Some (''https://www.youtube.com/watch?v='' @ g)
             | None \<Rightarrow>
                (case search_id11 ''youtube.com/watch?v='' url of
                   Some g \<Rightarrow> Some url
                 | None \<Rightarrow> None))))"

text \<open>The call sites: \<^verbatim>\<open>const normalizedUrl = normalizeUrl(url) || url;\<close>\<close>

definition normalizedUrl :: "string \<Rightarrow> string" where
  "normalizedUrl url = js_or (normalizeUrl url) url"

lemma match_id11_here_id:
  "match_id11_here lit s = Some g \<Longrightarrow> length g = 11 \<and> list_all id_char g"
  by (auto simp: match_id11_here_def split: option.splits if_splits)

lemma search_id11_id:
  "search_id11 lit s = Some g \<Longrightarrow> length g = 11 \<and> list_all id_char g"
proof (induction s)
  case Nil
  then show ?case by (simp add: match_id11_here_id)
next
  case (Cons c cs)
  then show ?case
    by (cases "match_id11_here lit (c # cs)") (auto dest: match_id11_here_id)
qed

text \<open>A literal with a character outside the id class does not occur inside an id.\<close>

lemma strip_prefix_set:
  "strip_prefix lit s = Some rest \<Longrightarrow> set lit \<subseteq> set s"
  by (induction lit s rule: strip_prefix.induct) (auto split: if_splits)

lemma search_id11_inside_id:
  assumes "list_all id_char s" and "p \<in> set lit" and "\<not> id_char p"
  shows "search_id11 lit s = None"
  using assms(1)
proof (induction s)
  case Nil
  from assms(2) have "strip_prefix lit [] = None" by (cases lit) simp_all
  then show ?case by (simp add: match_id11_here_def)
next
  case (Cons c cs)
  have "strip_prefix lit (c # cs) = None"
  proof (cases "strip_prefix lit (c # cs)")
    case (Some rest)
    then have "p \<in> set (c # cs)" using strip_prefix_set assms(2) by blast
    with Cons.prems assms(3) show ?thesis by (auto simp: list_all_iff)
  qed simp
  with Cons show ?case by (simp add: match_id11_here_def)
qed

lemma canonical_no_shorts:
  assumes "list_all id_char v"
  shows "search_id11 ''youtube.com/shorts/'' (''https://www.youtube.com/watch?v='' @ v) = None"
proof -
  have "\<not> id_char (CHR ''.'')" by (simp add: id_char_def)
  then have "search_id11 ''youtube.com/shorts/'' v = None"
    using assms by (intro search_id11_inside_id [where p = "CHR ''.''"]) simp_all
  then show ?thesis by (simp add: match_id11_here_def)
qed

lemma canonical_no_short_host:
  assumes "list_all id_char v"
  shows "search_id11 ''youtu.be/'' (''https://www.youtube.com/watch?v='' @ v) = None"
proof -
  have "\<not> id_char (CHR ''.'')" by (simp add: id_char_def)
  then have "search_id11 ''youtu.be/'' v = None"
    using assms by (intro search_id11_inside_id [where p = "CHR ''.''"]) simp_all
  then show ?thesis by (simp add: match_id11_here_def)
qed

lemma canonical_watch:
  assumes "length v = 11" and "list_all id_char v"
  shows "search_id11 ''youtube.com/watch?v='' (''https://www.youtube.com/watch?v='' @ v) = Some v"
  using assms by (simp add: match_id11_here_def)

lemma normalizeUrl_canonical:
  assumes "length v = 11" and "list_all id_char v"
  shows "normalizeUrl (''https://www.youtube.com/watch?v='' @ v)
           = Some (''https://www.youtube.com/watch?v='' @ v)"
  unfolding normalizeUrl_def
  by (simp only: canonical_no_shorts [OF assms(2)] canonical_no_short_host [OF assms(2)]
        canonical_watch [OF assms]) simp

lemma normalizeUrl_fixpoint:
  assumes "normalizeUrl x = Some y"
  shows "normalizeUrl y = Some y"
proof (cases "search_id11 ''youtube.com/shorts/'' x")
  case (Some g)
  with assms have "y = ''https://www.youtube.com/watch?v='' @ g"
    by (auto simp: normalizeUrl_def split: if_splits)
  with search_id11_id [OF Some] show ?thesis by (simp only: normalizeUrl_canonical)
next
  case None
  note no_shorts = None
  show ?thesis
  proof (cases "search_id11 ''youtu.be/'' x")
    case (Some g)
    with assms no_shorts have "y = ''https://www.youtube.com/watch?v='' @ g"
      by (auto simp: normalizeUrl_def split: if_splits)
    with search_id11_id [OF Some] show ?thesis by (simp only: normalizeUrl_canonical)
  next
    case None
    with assms no_shorts have "y = x"
      by (auto simp: normalizeUrl_def split: if_splits option.splits)
    with assms show ?thesis by simp
  qed
qed

text \<open>
  C9.  The normalizer is idempotent on the recognized link forms: whenever \<open>normalizeUrl\<close>
  returns a link, normalizing that link returns it again; and a canonical watch link
  (the watch prefix followed by an 11-character id) is returned unchanged.
\<close>

theorem normalizeUrl_idempotent:
  "(\<forall>y. normalizeUrl x = Some y \<longrightarrow> normalizeUrl y = normalizeUrl x)
   \<and> (length v = 11 \<and> list_all id_char v \<longrightarrow>
        normalizeUrl (''https://www.youtube.com/watch?v='' @ v)
          = Some (''https://www.youtube.com/watch?v='' @ v))"
  using normalizeUrl_fixpoint [of x] normalizeUrl_canonical [of v] by auto

theorem normalizeUrl_idempotent_witness:
  "normalizeUrl ''https://youtu.be/dQw4w9WgXcQ?t=42''
     = Some ''https://www.youtube.com/watch?v=dQw4w9WgXcQ''
   \<and> normalizeUrl ''https://www.youtube.com/watch?v=dQw4w9WgXcQ''
     = Some ''https://www.youtube.com/watch?v=dQw4w9WgXcQ''
   \<and> length ''dQw4w9WgXcQ'' = 11 \<and> list_all id_char ''dQw4w9WgXcQ''"
  using normalizeUrl_idempotent
    [of "''https://youtu.be/dQw4w9WgXcQ?t=42''" "''dQw4w9WgXcQ''"]
  by (simp add: normalizeUrl_def match_id11_here_def id_char_def)

text \<open>
  C8.  For every input that matches none of the three link forms, the source normalizer
  returns the input unchanged and rejects nothing: the normalizer is the expression
  \<open>normalizeUrl(url) || url\<close> of every call site, where \<open>normalizeUrl\<close> returns \<open>null\<close> for
  such an input and the fallback supplies the input itself.
\<close>

theorem normalizeUrl_unrecognized:
  "search_id11 ''youtube.com/shorts/'' url = None
   \<and> search_id11 ''youtu.be/'' url = None
   \<and> search_id11 ''youtube.com/watch?v='' url = None
   \<longrightarrow> normalizeUrl url = None \<and> normalizedUrl url = url"
  by (simp add: normalizeUrl_def normalizedUrl_def js_or_def)

theorem normalizeUrl_unrecognized_witness:
  "search_id11 ''youtube.com/shorts/'' ''rick astley'' = None
   \<and> search_id11 ''youtu.be/'' ''rick astley'' = None
   \<and> search_id11 ''youtube.com/watch?v='' ''rick astley'' = None
   \<and> normalizedUrl ''rick astley'' = ''rick astley''"
  using normalizeUrl_unrecognized [of "''rick astley''"]
  by (simp add: match_id11_here_def)


section \<open>The artifact directory\<close>

text \<open>
  The entries of \<open>TEMP_DIR\<close>, in the order \<open>fs.readdirSync\<close> lists them, with what
  \<open>fs.statSync\<close> reports of each: the modification time in milliseconds (a floating-point
  number in JavaScript, a real here) and the size in bytes.  \<open>unlinkable\<close> says whether
  \<open>fs.unlinkSync\<close> succeeds on the entry; it throws on a sub-directory or a locked file.
  The file operations take the name of the entry: the code passes
  \<open>path.join(TEMP_DIR, name)\<close>.
\<close>

record file_stat =
  mtimeMs :: real
  size :: nat
  unlinkable :: bool

type_synonym directory = "(string \<times> file_stat) list"

datatype fs_error = ENOENT | EPERM

definition readdirSync :: "directory \<Rightarrow> string list" where
  "readdirSync d = map fst d"

definition existsSync :: "directory \<Rightarrow> string \<Rightarrow> bool" where
  "existsSync d name = (map_of d name \<noteq> None)"

definition statSync :: "directory \<Rightarrow> string \<Rightarrow> fs_error + file_stat" where
  "statSync d name = (case map_of d name of None \<Rightarrow> Inl ENOENT | Some f \<Rightarrow> Inr f)"

definition unlinkSync :: "directory \<Rightarrow> string \<Rightarrow> fs_error + directory" where
  "unlinkSync d name =
     (case map_of d name of
        None \<Rightarrow> Inl ENOENT
      | Some f \<Rightarrow> if unlinkable f then Inr (filter (\<lambda>e. fst e \<noteq> name) d) else Inl EPERM)"

lemma map_of_remove:
  "map_of (filter (\<lambda>e. fst e \<noteq> name) d) x = (if x = name then None else map_of d x)"
  by (induction d) auto


section \<open>The garbage collector\<close>

text \<open>
  \<^verbatim>\<open>
  function cleanupOldFiles() {
    try {
      if (!fs.existsSync(TEMP_DIR)) return;
      const files = fs.readdirSync(TEMP_DIR);
      const now = Date.now();
      const maxAge = 30 * 60 * 1000;
      let cleaned = 0;
      files.forEach(file => {
        try {
          const filepath = path.join(TEMP_DIR, file);
          const stats = fs.statSync(filepath);
          if (now - stats.mtimeMs > maxAge) {
            fs.unlinkSync(filepath);
            cleaned++;
          }
        } catch (e) { /* Ignore */ }
      });
      ...
  \<close>
  \<open>sweep\<close> is the \<open>forEach\<close> loop; its state is the directory and the counter \<open>cleaned\<close>.
  An exception of \<open>statSync\<close> or \<open>unlinkSync\<close> ends the iteration for that file only.
  \<open>now\<close> is the value of \<open>Date.now()\<close>, a whole number of milliseconds; the age
  \<open>now - stats.mtimeMs\<close> is the exact difference.
\<close>

fun sweep :: "real \<Rightarrow> nat \<Rightarrow> string list \<Rightarrow> directory \<times> nat \<Rightarrow> directory \<times> nat" where
  "sweep maxAge now [] (d, cleaned) = (d, cleaned)"
| "sweep maxAge now (file # files) (d, cleaned) =
     (case statSync d file of
        Inl e \<Rightarrow> sweep maxAge now files (d, cleaned)
      | Inr stats \<Rightarrow>
          if real now - mtimeMs stats > maxAge then
            (case unlinkSync d file of
               Inl e \<Rightarrow> sweep maxAge now files (d, cleaned)
             | Inr d' \<Rightarrow> sweep maxAge now files (d', cleaned + 1))
          else sweep maxAge now files (d, cleaned))"

text \<open>
  The body of \<open>cleanupOldFiles\<close> for a given \<open>maxAge\<close>.  The state is \<open>None\<close> when
  \<open>TEMP_DIR\<close> does not exist; the function then returns at once.
\<close>

definition cleanup_with :: "real \<Rightarrow> nat \<Rightarrow> directory option \<Rightarrow> directory option" where
  "cleanup_with maxAge now temp =
     (case temp of
        None \<Rightarrow> None
      | Some d \<Rightarrow> Some (fst (sweep maxAge now (readdirSync d) (d, 0))))"

text \<open>\<open>server.js\<close>: 30 minutes.  The variant with search and streaming: 2 hours.\<close>

definition cleanupOldFiles :: "nat \<Rightarrow> directory option \<Rightarrow> directory option" where
  "cleanupOldFiles = cleanup_with (30 * 60 * 1000)"

definition cleanupOldFiles_2h :: "nat \<Rightarrow> directory option \<Rightarrow> directory option" where
  "cleanupOldFiles_2h = cleanup_with (2 * 60 * 60 * 1000)"

text \<open>What one run of the loop leaves of the directory.\<close>

lemma sweep_lookup:
  "map_of (fst (sweep maxAge now names (d, cleaned))) x =
     (case map_of d x of
        None \<Rightarrow> None
      | Some f \<Rightarrow>
          if x \<in> set names \<and> real now - mtimeMs f > maxAge \<and> unlinkable f then None
          else Some f)"
proof (induction names arbitrary: d cleaned)
  case Nil
  show ?case by (simp split: option.splits)
next
  case (Cons n names)
  show ?case
  proof (cases "map_of d n")
    case None
    then show ?thesis
      by (auto simp: Cons.IH statSync_def split: option.splits)
  next
    case (Some g)
    show ?thesis
    proof (cases "real now - mtimeMs g > maxAge \<and> unlinkable g")
      case True
      with Some show ?thesis
        by (auto simp: Cons.IH statSync_def unlinkSync_def map_of_remove split: option.splits)
    next
      case False
      with Some show ?thesis
        by (auto simp: Cons.IH statSync_def unlinkSync_def split: option.splits)
    qed
  qed
qed

lemma cleanup_with_lookup:
  assumes "cleanup_with maxAge now (Some d) = Some d'" and "map_of d name = Some f"
  shows "map_of d' name =
           (if real now - mtimeMs f > maxAge \<and> unlinkable f then None else Some f)"
proof -
  from assms(2) have "name \<in> set (readdirSync d)"
    by (force simp: readdirSync_def dest: map_of_SomeD)
  moreover from assms(1) have "d' = fst (sweep maxAge now (readdirSync d) (d, 0))"
    by (simp add: cleanup_with_def)
  ultimately show ?thesis using assms(2) by (simp add: sweep_lookup)
qed

text \<open>
  C3, as the code has it.  A sweep keeps every file whose age (\<open>now\<close> minus the
  modification time) is at most \<open>maxAge\<close>, a file whose age equals \<open>maxAge\<close> included; it
  removes every file whose age is greater than \<open>maxAge\<close>, unless removing it fails, and then
  the file stays.
\<close>

theorem cleanup_ttl_law:
  "cleanup_with maxAge now (Some d) = Some d' \<and> map_of d name = Some f \<longrightarrow>
     (real now - mtimeMs f \<le> maxAge \<longrightarrow> map_of d' name = Some f)
   \<and> (real now - mtimeMs f > maxAge \<and> unlinkable f \<longrightarrow> map_of d' name = None)
   \<and> (\<not> unlinkable f \<longrightarrow> map_of d' name = Some f)"
  using cleanup_with_lookup [of maxAge now d d' name f] by auto

theorem cleanup_ttl_law_witness:
  "cleanup_with (30 * 60 * 1000) 1700001800001
     (Some [(''old.mp4'', \<lparr>mtimeMs = 1700000000000, size = 7, unlinkable = True\<rparr>),
            (''new.mp4'', \<lparr>mtimeMs = 1700000000001.5, size = 9, unlinkable = True\<rparr>)])
     = Some [(''new.mp4'', \<lparr>mtimeMs = 1700000000001.5, size = 9, unlinkable = True\<rparr>)]
   \<and> real 1700001800001 - 1700000000000 > 30 * 60 * 1000
   \<and> real 1700001800001 - 1700000000001.5 \<le> 30 * 60 * 1000
   \<and> map_of [(''new.mp4'', \<lparr>mtimeMs = 1700000000001.5, size = 9, unlinkable = True\<rparr>)]
        ''old.mp4'' = None
   \<and> map_of [(''new.mp4'', \<lparr>mtimeMs = 1700000000001.5, size = 9, unlinkable = True\<rparr>)]
        ''new.mp4'' = Some \<lparr>mtimeMs = 1700000000001.5, size = 9, unlinkable = True\<rparr>"
  using cleanup_ttl_law
    [of "30 * 60 * 1000" 1700001800001
        "[(''old.mp4'', \<lparr>mtimeMs = 1700000000000, size = 7, unlinkable = True\<rparr>),
          (''new.mp4'', \<lparr>mtimeMs = 1700000000001.5, size = 9, unlinkable = True\<rparr>)]"
        "[(''new.mp4'', \<lparr>mtimeMs = 1700000000001.5, size = 9, unlinkable = True\<rparr>)]"
        "''old.mp4''" "\<lparr>mtimeMs = 1700000000000, size = 7, unlinkable = True\<rparr>"]
  by (simp add: cleanup_with_def readdirSync_def statSync_def unlinkSync_def)

text \<open>
  A file whose age is exactly the 30 minutes of \<open>server.js\<close> is not deleted by the sweep,
  although removing it would succeed.
\<close>

theorem cleanup_age_equals_ttl_counterexample:
  "real 1700001800000 - mtimeMs \<lparr>mtimeMs = 1700000000000, size = 7, unlinkable = True\<rparr>
     = 30 * 60 * 1000
   \<and> cleanupOldFiles 1700001800000
        (Some [(''a.mp4'', \<lparr>mtimeMs = 1700000000000, size = 7, unlinkable = True\<rparr>)])
     = Some [(''a.mp4'', \<lparr>mtimeMs = 1700000000000, size = 7, unlinkable = True\<rparr>)]"
  by (simp add: cleanupOldFiles_def cleanup_with_def readdirSync_def statSync_def)


section \<open>Paths\<close>

text \<open>
  \<open>path.join\<close> is Node's, not code of this repository; this is its POSIX algorithm
  (\<open>lib/path.js\<close>): the non-empty arguments are joined with \<open>/\<close> and the result is
  normalized.  Normalization drops empty segments and \<open>.\<close>, and lets a \<open>..\<close> segment remove
  the segment before it; above the root of an absolute path \<open>..\<close> is dropped, at the start
  of a relative path it is kept.
\<close>

fun split_on :: "char \<Rightarrow> string \<Rightarrow> string list" where
  "split_on sep [] = [] # []"
| "split_on sep (c # cs) =
     (if c = sep then [] # split_on sep cs
      else case split_on sep cs of
             [] \<Rightarrow> [c] # []
           | w # ws \<Rightarrow> (c # w) # ws)"

fun normalizeString :: "bool \<Rightarrow> string list \<Rightarrow> string list \<Rightarrow> string list" where
  "normalizeString allowAboveRoot res [] = res"
| "normalizeString allowAboveRoot res (seg # segs) =
     (if seg = [] \<or> seg = ''.'' then normalizeString allowAboveRoot res segs
      else if seg = ''..'' then
        (if res \<noteq> [] \<and> last res \<noteq> ''..'' then
           normalizeString allowAboveRoot (butlast res) segs
         else if allowAboveRoot then normalizeString allowAboveRoot (res @ [''..'']) segs
         else normalizeString allowAboveRoot res segs)
      else normalizeString allowAboveRoot (res @ [seg]) segs)"

definition path_normalize :: "string \<Rightarrow> string" where
  "path_normalize p =
     (if p = [] then ''.''
      else
        let isAbsolute = (hd p = CHR ''/'');
            trailingSeparator = (last p = CHR ''/'');
            res = join ''/'' (normalizeString (\<not> isAbsolute) [] (split_on CHR ''/'' p))
        in if res = [] then (if isAbsolute then ''/'' else if trailingSeparator then ''./'' else ''.'')
           else (if isAbsolute then ''/'' else []) @ res @ (if trailingSeparator then ''/'' else []))"

definition path_join :: "string list \<Rightarrow> string" where
  "path_join args =
     (case filter (\<lambda>a. a \<noteq> []) args of
        [] \<Rightarrow> ''.''
      | ps \<Rightarrow> path_normalize (join ''/'' ps))"


section \<open>The retrieval endpoints\<close>




















section \<open>The process executor\<close>

text \<open>
  \<open>execPromise\<close> is \<open>util.promisify(child_process.exec)\<close>: it takes one command string and
  runs it with the shell.  The external tool is a black box: \<open>exec\<close> is a parameter that
  maps the command string and the artifact directory to the outcome (\<open>Inl\<close> the error of
  the rejection, for a non-zero exit, a timeout, or a failure to start; \<open>Inr\<close> the
  standard output) and the directory as the tool leaves it.  The error of a rejection
  has a \<open>message\<close> and the text the process wrote to \<open>stderr\<close>.
\<close>

record exec_error =
  err_message :: string
  err_stderr :: string

type_synonym exec = "string \<Rightarrow> directory \<Rightarrow> (exec_error + string) \<times> directory"

text \<open>
  \<^verbatim>\<open>
  async function executeYtDlp(args) {
    const safeArgs = args.map(arg => `"${sanitizeShellInput(arg)}"`);
    const command = `yt-dlp ${safeArgs.join(" ")}`;
    try {
      const { stdout, stderr } = await execPromise(command, { maxBuffer: 10 * 1024 * 1024 });
      return { stdout, stderr };
    } catch (error) {
      throw new Error(`yt-dlp failed: ${error.message}`);
    }
  }
  \<close>
\<close>

definition safeArgs :: "string list \<Rightarrow> string list" where
  "safeArgs args = map (\<lambda>arg. dq @ sanitizeShellInput arg @ dq) args"

definition executeYtDlp_command :: "string list \<Rightarrow> string" where
  "executeYtDlp_command args = ''yt-dlp '' @ join '' '' (safeArgs args)"

definition executeYtDlp :: "exec \<Rightarrow> string list \<Rightarrow> directory \<Rightarrow> (string + string) \<times> directory" where
  "executeYtDlp exec args d =
     (case exec (executeYtDlp_command args) d of
        (Inl error, d') \<Rightarrow> (Inl (''yt-dlp failed: '' @ err_message error), d')
      | (Inr stdout, d') \<Rightarrow> (Inr stdout, d'))"


section \<open>The download operation\<close>

text \<open>
  The JSON body of \<open>POST /download\<close>; a field that is absent is \<open>None\<close>.
\<close>

record request =
  req_url :: "string option"
  req_search :: "string option"
  req_type :: "string option"
  req_quality :: "string option"
  req_formatId :: "string option"

text \<open>A destructuring default, \<open>const { type = "video" } = req.body\<close>: used when the field is absent.\<close>

definition default_to :: "string \<Rightarrow> string option \<Rightarrow> string" where
  "default_to dflt v = (case v of None \<Rightarrow> dflt | Some s \<Rightarrow> s)"

text \<open>
  The responses: 400 with its error text; the success response with the file name (and,
  where the handler reports it, the size) of the artifact; 500 with its message.  The
  other fields of the success response are texts computed from these.
\<close>

datatype download_response =
    Bad_request string
  | Download_ok string nat
  | Download_failed string

text \<open>
  The variant with search and streaming.
  \<^verbatim>\<open>
    const args = [ normalizedUrl, "--no-playlist", "--geo-bypass", "--no-warnings", "--quiet",
      "--force-ipv4", "--concurrent-fragments", "5", "-o", filepath ];
    if (formatId) {
      args.push("-f", formatId);
    } else if (type === "audio") {
      args.push("-x", "--audio-format", "mp3", "--audio-quality", "192");
    } else {
      switch(quality) {
        case "low": args.push("-f", "best[height<=360]"); break;
        case "medium": args.push("-f", "best[height<=720]"); break;
        case "high": args.push("-f", "best[height<=1080]"); break;
        case "best": args.push("-f", "best"); break;
        default: args.push("-f", "best[height<=720]");
      }
    }
  \<close>
\<close>

definition build_args ::
  "string \<Rightarrow> string \<Rightarrow> string \<Rightarrow> string \<Rightarrow> string option \<Rightarrow> string list" where
  "build_args normalized filepath type quality formatId =
     [normalized, ''--no-playlist'', ''--geo-bypass'', ''--no-warnings'', ''--quiet'',
      ''--force-ipv4'', ''--concurrent-fragments'', ''5'', ''-o'', filepath]
     @ (if truthy formatId then [''-f'', default_to [] formatId]
        else if type = ''audio'' then
          [''-x'', ''--audio-format'', ''mp3'', ''--audio-quality'', ''192'']
        else if quality = ''low'' then [''-f'', ''best[height<=360]'']
        else if quality = ''medium'' then [''-f'', ''best[height<=720]'']
        else if quality = ''high'' then [''-f'', ''best[height<=1080]'']
        else if quality = ''best'' then [''-f'', ''best'']
        else [''-f'', ''best[height<=720]''])"

text \<open>
  The \<open>catch\<close> branch of this variant:
  \<^verbatim>\<open>
    try {
      if (fs.existsSync(filepath)) {
        fs.unlinkSync(filepath);
      }
    } catch (e) {}
    res.status(500).json({ error: "Download failed", message: error.message, ... });
  \<close>
\<close>

definition download_catch :: "string \<Rightarrow> string \<Rightarrow> directory \<Rightarrow> download_response \<times> directory" where
  "download_catch message filename d =
     (let d' = (if existsSync d filename then
                  (case unlinkSync d filename of Inl e \<Rightarrow> d | Inr d'' \<Rightarrow> d'')
                else d)
      in (Download_failed message, d'))"

text \<open>
  The handler.  \<open>uuid\<close> is what \<open>uuidv4()\<close> returns for this request and \<open>now\<close> what
  \<open>Date.now()\<close> returns.
  \<^verbatim>\<open>
    const { url, type = "video", quality = "medium", formatId } = req.body;
    if (!url) { return res.status(400).json({ error: "URL is required" }); }
    const normalizedUrl = normalizeUrl(url) || url;
    const downloadId = uuidv4().slice(0, 8);
    const ext = type === "audio" ? "mp3" : "mp4";
    const filename = `${downloadId}-${Date.now()}.${ext}`;
    const filepath = path.join(TEMP_DIR, filename);
    try {
      ...
      await executeYtDlp(args);
      if (!fs.existsSync(filepath)) { throw new Error("File not created"); }
      const stats = fs.statSync(filepath);
      ...
      res.json({ success: true, downloadId, filename, ..., fileSize: stats.size, ... });
    } catch (error) { ... }
  \<close>
\<close>

definition download_filename :: "string \<Rightarrow> nat \<Rightarrow> string \<Rightarrow> string" where
  "download_filename uuid now type =
     take 8 uuid @ ''-'' @ show_nat now @ ''.'' @ (if type = ''audio'' then ''mp3'' else ''mp4'')"

definition download ::
  "exec \<Rightarrow> string \<Rightarrow> string \<Rightarrow> nat \<Rightarrow> request \<Rightarrow> directory \<Rightarrow> download_response \<times> directory"
  where
  "download exec TEMP_DIR uuid now req d =
     (case req_url req of
        None \<Rightarrow> (Bad_request ''URL is required'', d)
      | Some url \<Rightarrow>
          if url = [] then (Bad_request ''URL is required'', d)
          else
            let type = default_to ''video'' (req_type req);
                quality = default_to ''medium'' (req_quality req);
                filename = download_filename uuid now type;
                filepath = path_join [TEMP_DIR, filename];
                args = build_args (normalizedUrl url) filepath type quality (req_formatId req)
            in (case executeYtDlp exec args d of
                  (Inl message, d1) \<Rightarrow> download_catch message filename d1
                | (Inr out, d1) \<Rightarrow>
                    if \<not> existsSync d1 filename then
                      download_catch ''File not created'' filename d1
                    else
                      (case statSync d1 filename of
                         Inl e \<Rightarrow> download_catch ''ENOENT'' filename d1
                       | Inr stats \<Rightarrow> (Download_ok filename (size stats), d1))))"

text \<open>
  \<open>server.js\<close>.
  \<^verbatim>\<open>
    const { url, type = "video" } = req.body;
    if (!url) { return res.status(400).json({ error: "URL is required" }); }
    try {
      const normalizedUrl = normalizeUrl(url) || url;
      const filename = `${uuidv4()}.${type === "audio" ? "mp3" : "mp4"}`;
      const filepath = path.join(TEMP_DIR, filename);
      let cmd;
      if (type === "audio") {
        cmd = `yt-dlp -x --audio-format mp3 --audio-quality 192k -o "${filepath}" "${normalizedUrl}"`;
      } else {
        cmd = `yt-dlp -f "best[height<=720]" -o "${filepath}" "${normalizedUrl}"`;
      }
      await execPromise(cmd, { timeout: 180000 });
      if (!fs.existsSync(filepath)) { throw new Error("File not created"); }
      const stats = fs.statSync(filepath);
      ...
      res.json({ success: true, filename, fileSizeMB, ... });
    } catch (error) {
      console.error("Download error:", error.message);
      res.status(500).json({ error: "Download failed", message: error.message });
    }
  \<close>
\<close>

definition simple_cmd :: "string \<Rightarrow> string \<Rightarrow> string \<Rightarrow> string" where
  "simple_cmd type filepath normalized =
     (if type = ''audio'' then
        ''yt-dlp -x --audio-format mp3 --audio-quality 192k -o '' @ dq @ filepath @ dq
          @ '' '' @ dq @ normalized @ dq
      else
        ''yt-dlp -f '' @ dq @ ''best[height<=720]'' @ dq @ '' -o '' @ dq @ filepath @ dq
          @ '' '' @ dq @ normalized @ dq)"

definition download_simple ::
  "exec \<Rightarrow> string \<Rightarrow> string \<Rightarrow> request \<Rightarrow> directory \<Rightarrow> download_response \<times> directory"
  where
  "download_simple exec TEMP_DIR uuid req d =
     (case req_url req of
        None \<Rightarrow> (Bad_request ''URL is required'', d)
      | Some url \<Rightarrow>
          if url = [] then (Bad_request ''URL is required'', d)
          else
            let type = default_to ''video'' (req_type req);
                filename = uuid @ ''.'' @ (if type = ''audio'' then ''mp3'' else ''mp4'');
                filepath = path_join [TEMP_DIR, filename]
            in (case exec (simple_cmd type filepath (normalizedUrl url)) d of
                  (Inl error, d1) \<Rightarrow> (Download_failed (err_message error), d1)
                | (Inr out, d1) \<Rightarrow>
                    if \<not> existsSync d1 filename then (Download_failed ''File not created'', d1)
                    else
                      (case statSync d1 filename of
                         Inl e \<Rightarrow> (Download_failed ''ENOENT'', d1)
                       | Inr stats \<Rightarrow> (Download_ok filename (size stats), d1))))"

text \<open>
  A run of the external tool for the examples below: whatever the command, it leaves the
  file \<open>name\<close> with the given size and times in the directory and ends with \<open>outcome\<close>.
\<close>

definition tool_run :: "string \<Rightarrow> file_stat \<Rightarrow> (exec_error + string) \<Rightarrow> exec" where
  "tool_run name f outcome cmd d = (outcome, (name, f) # filter (\<lambda>e. fst e \<noteq> name) d)"

lemmas eval_defs = download_def download_simple_def download_catch_def executeYtDlp_def
  executeYtDlp_command_def build_args_def safeArgs_def normalizedUrl_def
  normalizeUrl_def match_id11_here_def js_or_def sanitizeShellInput_def shell_meta_def
  truthy_def dq_def default_to_def download_filename_def show_nat_numeral show_nat_small
  digit_char_def path_join_def path_normalize_def existsSync_def statSync_def unlinkSync_def
  tool_run_def simple_cmd_def Let_def

lemma join_set:
  "c \<in> set (join sep xs) \<Longrightarrow> c \<in> set sep \<or> (\<exists>x \<in> set xs. c \<in> set x)"
  by (induction sep xs rule: join.induct) auto

lemma command_clean:
  assumes "c \<in> set (executeYtDlp_command args)"
  shows "\<not> shell_meta c"
proof -
  have fixed: "\<not> shell_meta k" if "k \<in> set ''yt-dlp '' \<or> k \<in> set '' '' \<or> k \<in> set dq" for k
    using that by (auto simp: shell_meta_def dq_def)
  from assms consider "c \<in> set ''yt-dlp ''" | "c \<in> set (join '' '' (safeArgs args))"
    by (auto simp: executeYtDlp_command_def)
  then show ?thesis
  proof cases
    case 1
    then show ?thesis using fixed by blast
  next
    case 2
    from join_set [OF 2] show ?thesis
    proof
      assume "c \<in> set '' ''"
      then show ?thesis using fixed by blast
    next
      assume "\<exists>x \<in> set (safeArgs args). c \<in> set x"
      then obtain a where "c \<in> set (dq @ sanitizeShellInput a @ dq)"
        by (auto simp: safeArgs_def)
      then have "c \<in> set dq \<or> c \<in> set (sanitizeShellInput a)" by auto
      then show ?thesis using fixed sanitize_clean by blast
    qed
  qed
qed

lemma download_ok:
  assumes "download exec T uuid now req d = (Download_ok filename sz, d')"
  shows "\<exists>f. map_of d' filename = Some f \<and> size f = sz"
  using assms
  by (auto simp: download_def download_catch_def Let_def existsSync_def statSync_def
      split: option.splits if_splits prod.splits sum.splits)

lemma download_simple_ok:
  assumes "download_simple exec T uuid req d = (Download_ok filename sz, d')"
  shows "\<exists>f. map_of d' filename = Some f \<and> size f = sz"
  using assms
  by (auto simp: download_simple_def Let_def existsSync_def statSync_def
      split: option.splits if_splits prod.splits sum.splits)

text \<open>
  C6, as the code has it.  When the download operation produces a success response, the
  file it names exists in the artifact directory and the size it reports is the size of
  that file; the size is not tested.
\<close>

theorem download_ok_file_exists:
  "(download exec T uuid now req d = (Download_ok filename sz, d') \<longrightarrow>
      existsSync d' filename \<and> (\<exists>f. statSync d' filename = Inr f \<and> size f = sz))
   \<and> (download_simple exec T uuid req d = (Download_ok filename sz, d') \<longrightarrow>
      existsSync d' filename \<and> (\<exists>f. statSync d' filename = Inr f \<and> size f = sz))"
proof (intro conjI impI)
  assume "download exec T uuid now req d = (Download_ok filename sz, d')"
  then obtain f where f: "map_of d' filename = Some f" "size f = sz"
    using download_ok by blast
  from f show "existsSync d' filename" by (simp add: existsSync_def)
  from f show "\<exists>f. statSync d' filename = Inr f \<and> size f = sz" by (simp add: statSync_def)
next
  assume "download_simple exec T uuid req d = (Download_ok filename sz, d')"
  then obtain f where f: "map_of d' filename = Some f" "size f = sz"
    using download_simple_ok by blast
  from f show "existsSync d' filename" by (simp add: existsSync_def)
  from f show "\<exists>f. statSync d' filename = Inr f \<and> size f = sz" by (simp add: statSync_def)
qed

theorem download_ok_file_exists_witness:
  "download
     (tool_run ''1b9d6bcd-1700000000000.mp4''
        \<lparr>mtimeMs = 1700000000500, size = 1024, unlinkable = True\<rparr> (Inr []))
     ''/app/temp'' ''1b9d6bcd-bbfd-4b2d-9b5d-ab8dfbbd4bed'' 1700000000000
     \<lparr>req_url = Some ''https://youtu.be/dQw4w9WgXcQ'', req_search = None, req_type = None,
      req_quality = None, req_formatId = None\<rparr> []
   = (Download_ok ''1b9d6bcd-1700000000000.mp4'' 1024,
      [(''1b9d6bcd-1700000000000.mp4'',
        \<lparr>mtimeMs = 1700000000500, size = 1024, unlinkable = True\<rparr>)])
   \<and> existsSync
        [(''1b9d6bcd-1700000000000.mp4'',
          \<lparr>mtimeMs = 1700000000500, size = 1024, unlinkable = True\<rparr>)]
        ''1b9d6bcd-1700000000000.mp4''"
proof -
  have run: "download
     (tool_run ''1b9d6bcd-1700000000000.mp4''
        \<lparr>mtimeMs = 1700000000500, size = 1024, unlinkable = True\<rparr> (Inr []))
     ''/app/temp'' ''1b9d6bcd-bbfd-4b2d-9b5d-ab8dfbbd4bed'' 1700000000000
     \<lparr>req_url = Some ''https://youtu.be/dQw4w9WgXcQ'', req_search = None, req_type = None,
      req_quality = None, req_formatId = None\<rparr> []
   = (Download_ok ''1b9d6bcd-1700000000000.mp4'' 1024,
      [(''1b9d6bcd-1700000000000.mp4'',
        \<lparr>mtimeMs = 1700000000500, size = 1024, unlinkable = True\<rparr>)])"
    by (simp add: eval_defs)
  from download_ok_file_exists [THEN conjunct1, rule_format, OF run] run
  show ?thesis by (intro conjI) (elim conjE, assumption)+
qed

text \<open>
  The tool exits cleanly and leaves an empty file: the response is a success that names a
  file of size 0.
\<close>

theorem download_ok_empty_file_counterexample:
  "download
     (tool_run ''1b9d6bcd-1700000000000.mp4''
        \<lparr>mtimeMs = 1700000000500, size = 0, unlinkable = True\<rparr> (Inr []))
     ''/app/temp'' ''1b9d6bcd-bbfd-4b2d-9b5d-ab8dfbbd4bed'' 1700000000000
     \<lparr>req_url = Some ''https://youtu.be/dQw4w9WgXcQ'', req_search = None, req_type = None,
      req_quality = None, req_formatId = None\<rparr> []
   = (Download_ok ''1b9d6bcd-1700000000000.mp4'' 0,
      [(''1b9d6bcd-1700000000000.mp4'',
        \<lparr>mtimeMs = 1700000000500, size = 0, unlinkable = True\<rparr>)])"
  by (simp add: eval_defs)

text \<open>
  The failure path of the variant with search and streaming removes the job's file: after
  a failed download the file is gone, unless removing it failed.
\<close>

lemma download_failed_cleans:
  assumes "download exec T uuid now req d = (Download_failed message, d')"
  shows "case map_of d' (download_filename uuid now (default_to ''video'' (req_type req))) of
           None \<Rightarrow> True
         | Some f \<Rightarrow> \<not> unlinkable f"
  using assms
  by (auto simp: download_def download_catch_def Let_def existsSync_def statSync_def
        unlinkSync_def map_of_remove
      split: option.splits if_splits prod.splits sum.splits)

text \<open>
  C5.  A job that fails after the tool has written a partial file: the tool is killed by
  the timeout and leaves 4096 bytes.  The handler of \<open>server.js\<close> answers 500 and the
  partial file is still in the directory; the handler of the variant with search and
  streaming, on the corresponding run, answers 500 and has removed it.
\<close>

theorem download_simple_keeps_partial_file:
  "download_simple
     (tool_run ''1b9d6bcd-bbfd-4b2d-9b5d-ab8dfbbd4bed.mp4''
        \<lparr>mtimeMs = 1700000000500, size = 4096, unlinkable = True\<rparr>
        (Inl \<lparr>err_message = ''Command failed: timeout'', err_stderr = []\<rparr>))
     ''/app/temp'' ''1b9d6bcd-bbfd-4b2d-9b5d-ab8dfbbd4bed''
     \<lparr>req_url = Some ''https://youtu.be/dQw4w9WgXcQ'', req_search = None, req_type = None,
      req_quality = None, req_formatId = None\<rparr> []
   = (Download_failed ''Command failed: timeout'',
      [(''1b9d6bcd-bbfd-4b2d-9b5d-ab8dfbbd4bed.mp4'',
        \<lparr>mtimeMs = 1700000000500, size = 4096, unlinkable = True\<rparr>)])
   \<and> download
     (tool_run ''1b9d6bcd-1700000000000.mp4''
        \<lparr>mtimeMs = 1700000000500, size = 4096, unlinkable = True\<rparr>
        (Inl \<lparr>err_message = ''Command failed: timeout'', err_stderr = []\<rparr>))
     ''/app/temp'' ''1b9d6bcd-bbfd-4b2d-9b5d-ab8dfbbd4bed'' 1700000000000
     \<lparr>req_url = Some ''https://youtu.be/dQw4w9WgXcQ'', req_search = None, req_type = None,
      req_quality = None, req_formatId = None\<rparr> []
   = (Download_failed ''yt-dlp failed: Command failed: timeout'', [])"
  by (simp add: eval_defs)


section \<open>The download operation that resolves its output\<close>

text \<open>
  The variant that accepts a search term.
  \<^verbatim>\<open>
  function normalizeUrl(url) {
    if (!url) return null;
    const m = url.match(/youtube\.com\/shorts\/([a-zA-Z0-9_-]+)/);
    if (m) return `https://www.youtube.com/watch?v=${m[1]}`;
    return url;
  }
  \<close>
  The group \<open>([a-zA-Z0-9_-]+)\<close> is greedy: it takes every id character that follows the
  literal, and needs at least one.
\<close>

definition match_id_plus_here :: "string \<Rightarrow> string \<Rightarrow> string option" where
  "match_id_plus_here lit s =
     (case strip_prefix lit s of
        None \<Rightarrow> None
      | Some rest \<Rightarrow> if takeWhile id_char rest \<noteq> [] then Some (takeWhile id_char rest) else None)"

fun search_id_plus :: "string \<Rightarrow> string \<Rightarrow> string option" where
  "search_id_plus lit [] = match_id_plus_here lit []"
| "search_id_plus lit (c # cs) =
     (case match_id_plus_here lit (c # cs) of
        Some g \<Rightarrow> Some g
      | None \<Rightarrow> search_id_plus lit cs)"

definition normalizeUrl_shorts :: "string option \<Rightarrow> string option" where
  "normalizeUrl_shorts url =
     (case url of
        None \<Rightarrow> None
      | Some u \<Rightarrow>
          if u = [] then None
          else (case search_id_plus ''youtube.com/shorts/'' u of
                  Some g \<Rightarrow> Some (''https://www.youtube.com/watch?v='' @ g)
                | None \<Rightarrow> Some u))"

text \<open>
  \<^verbatim>\<open>
  function baseArgs() {
    return [
      "--force-ipv4",
      "--user-agent \"Mozilla/5.0 (Macintosh; Intel Mac OS X 10_15_7) Safari/605.1.15\"",
      "--extractor-args \"youtube:player_client=web_safari\"",
      "--geo-bypass", "--no-playlist", "--hls-prefer-native", "--concurrent-fragments 8",
      "--no-progress"
    ].join(" ");
  }
  \<close>
\<close>

definition baseArgs :: string where
  \<open>baseArgs =
     join '' ''
       [''--force-ipv4'',
        ''--user-agent "Mozilla/5.0 (Macintosh; Intel Mac OS X 10_15_7) Safari/605.1.15"'',
        ''--extractor-args "youtube:player_client=web_safari"'',
        ''--geo-bypass'',
        ''--no-playlist'',
        ''--hls-prefer-native'',
        ''--concurrent-fragments 8'',
        ''--no-progress'']\<close>

text \<open>
  \<^verbatim>\<open>
    const { url, search, type = "video" } = req.body;
    const input = search ? `ytsearch1:${search}` : normalizeUrl(url);
    if (!input) { return res.status(400).json({ error: "No URL or search provided" }); }
    const id = `yt-${Date.now()}`;
    const output = path.join(TEMP_DIR, `${id}.%(ext)s`);
    let format; let post = "";
    if (type === "audio") {
      format = `"bv*[protocol=m3u8]/ba*[protocol=m3u8]/best"`;
      post = "-x --audio-format mp3";
    } else {
      format = `"bv*[protocol=m3u8]/best"`;
    }
    const cmd = `yt-dlp ${baseArgs()} -f ${format} ${post} -o "${output}" "${input}"`;
    try {
      await execPromise(cmd);
      const files = fs.readdirSync(TEMP_DIR).filter(f => f.startsWith(id));
      if (!files.length) throw new Error("No output file");
      res.json({ downloadUrl: `/file/${files[0]}`, type });
    } catch (e) {
      res.status(500).json({ error: "Failed to download", details: e.stderr || e.message, ... });
    }
  \<close>
\<close>

definition job_id :: "nat \<Rightarrow> string" where
  "job_id now = ''yt-'' @ show_nat now"

definition resolving_cmd :: "string \<Rightarrow> string \<Rightarrow> string \<Rightarrow> string" where
  \<open>resolving_cmd type output input =
     (let format = (if type = ''audio'' then ''"bv*[protocol=m3u8]/ba*[protocol=m3u8]/best"''
                    else ''"bv*[protocol=m3u8]/best"'');
          post = (if type = ''audio'' then ''-x --audio-format mp3'' else [])
      in ''yt-dlp '' @ baseArgs @ '' -f '' @ format @ '' '' @ post @ '' -o "'' @ output
           @ ''" "'' @ input @ ''"'')\<close>

text \<open>The output resolver: the first entry of the listing whose name starts with the job id.\<close>

definition resolve_output :: "string \<Rightarrow> directory \<Rightarrow> string + string" where
  "resolve_output jid d =
     (case filter (\<lambda>f. startsWith f jid) (readdirSync d) of
        [] \<Rightarrow> Inl ''No output file''
      | f # fs \<Rightarrow> Inr f)"

datatype resolving_response =
    No_input string
  | Resolved string
  | Resolve_failed string

text \<open>\<open>input\<close>, and the command that is handed to \<open>execPromise\<close>.\<close>

definition resolving_input :: "request \<Rightarrow> string option" where
  "resolving_input req =
     (if truthy (req_search req) then Some (''ytsearch1:'' @ default_to [] (req_search req))
      else normalizeUrl_shorts (req_url req))"

definition resolving_invocation :: "string \<Rightarrow> nat \<Rightarrow> request \<Rightarrow> string" where
  "resolving_invocation TEMP_DIR now req =
     resolving_cmd (default_to ''video'' (req_type req))
       (path_join [TEMP_DIR, job_id now @ ''.%(ext)s''])
       (default_to [] (resolving_input req))"

definition download_resolving ::
  "exec \<Rightarrow> string \<Rightarrow> nat \<Rightarrow> request \<Rightarrow> directory \<Rightarrow> resolving_response \<times> directory" where
  "download_resolving exec TEMP_DIR now req d =
     (if \<not> truthy (resolving_input req) then (No_input ''No URL or search provided'', d)
      else
        (case exec (resolving_invocation TEMP_DIR now req) d of
           (Inl e, d1) \<Rightarrow> (Resolve_failed (js_or (Some (err_stderr e)) (err_message e)), d1)
         | (Inr out, d1) \<Rightarrow>
             (case resolve_output (job_id now) d1 of
                Inl message \<Rightarrow> (Resolve_failed message, d1)
              | Inr f \<Rightarrow> (Resolved (''/file/'' @ f), d1))))"

lemmas resolving_defs = download_resolving_def resolving_input_def resolving_invocation_def
  resolve_output_def job_id_def resolving_cmd_def
  normalizeUrl_shorts_def match_id_plus_here_def baseArgs_def readdirSync_def

lemma resolve_output_Inr:
  assumes "resolve_output jid d = Inr f"
  shows "\<exists>pre post. readdirSync d = pre @ f # post \<and> startsWith f jid
            \<and> (\<forall>g \<in> set pre. \<not> startsWith g jid)"
proof -
  from assms obtain fs where "filter (\<lambda>f. startsWith f jid) (readdirSync d) = f # fs"
    by (auto simp: resolve_output_def split: list.splits)
  then show ?thesis
    unfolding filter_eq_Cons_iff by blast
qed

lemma resolve_output_Inl:
  "resolve_output jid d = Inl m \<longleftrightarrow>
     m = ''No output file'' \<and> (\<forall>g \<in> set (readdirSync d). \<not> startsWith g jid)"
proof (cases "filter (\<lambda>f. startsWith f jid) (readdirSync d)")
  case Nil
  then have "\<forall>g \<in> set (readdirSync d). \<not> startsWith g jid"
    by (simp add: filter_empty_conv)
  with Nil show ?thesis by (auto simp: resolve_output_def)
next
  case (Cons f fs)
  then have "f \<in> set (filter (\<lambda>f. startsWith f jid) (readdirSync d))" by simp
  then have "\<exists>g \<in> set (readdirSync d). startsWith g jid" by auto
  with Cons show ?thesis by (simp add: resolve_output_def)
qed

lemma download_resolving_after_exec:
  assumes "truthy (resolving_input req)"
      and "exec (resolving_invocation TEMP_DIR now req) d = (Inr out, d1)"
  shows "download_resolving exec TEMP_DIR now req d =
           (case resolve_output (job_id now) d1 of
              Inl message \<Rightarrow> (Resolve_failed message, d1)
            | Inr f \<Rightarrow> (Resolved (''/file/'' @ f), d1))"
  using assms by (simp add: download_resolving_def)

text \<open>
  C4, as the code has it.  Among the files of the artifact directory whose names start
  with the job id, the output resolver selects the first one in the order of the
  directory listing, whatever the sizes, and the job's response refers to that file; when
  there is none, and only then, the resolver fails with \<open>No output file\<close>, and the job is
  answered with that failure.
\<close>

theorem resolve_output_first_match:
  "(resolve_output jid d = Inr f \<longrightarrow>
      (\<exists>pre post. readdirSync d = pre @ f # post \<and> startsWith f jid
         \<and> (\<forall>g \<in> set pre. \<not> startsWith g jid)))
   \<and> (resolve_output jid d = Inl ''No output file''
        \<longleftrightarrow> (\<forall>g \<in> set (readdirSync d). \<not> startsWith g jid))
   \<and> (\<forall>m. resolve_output jid d = Inl m \<longrightarrow> m = ''No output file'')
   \<and> (truthy (resolving_input req)
        \<and> exec (resolving_invocation TEMP_DIR now req) d0 = (Inr out, d1)
        \<and> resolve_output (job_id now) d1 = Inr f
        \<longrightarrow> download_resolving exec TEMP_DIR now req d0 = (Resolved (''/file/'' @ f), d1))
   \<and> (truthy (resolving_input req)
        \<and> exec (resolving_invocation TEMP_DIR now req) d0 = (Inr out, d1)
        \<and> (\<forall>g \<in> set (readdirSync d1). \<not> startsWith g (job_id now))
        \<longrightarrow> download_resolving exec TEMP_DIR now req d0
              = (Resolve_failed ''No output file'', d1))"
proof (intro conjI impI allI)
  show "\<exists>pre post. readdirSync d = pre @ f # post \<and> startsWith f jid
          \<and> (\<forall>g \<in> set pre. \<not> startsWith g jid)"
    if "resolve_output jid d = Inr f"
    using that by (rule resolve_output_Inr)
  show "resolve_output jid d = Inl ''No output file''
          \<longleftrightarrow> (\<forall>g \<in> set (readdirSync d). \<not> startsWith g jid)"
    by (simp add: resolve_output_Inl)
  show "m = ''No output file''" if "resolve_output jid d = Inl m" for m
    using that by (simp add: resolve_output_Inl)
  show "download_resolving exec TEMP_DIR now req d0 = (Resolved (''/file/'' @ f), d1)"
    if "truthy (resolving_input req)
        \<and> exec (resolving_invocation TEMP_DIR now req) d0 = (Inr out, d1)
        \<and> resolve_output (job_id now) d1 = Inr f"
    using that by (simp add: download_resolving_after_exec)
  show "download_resolving exec TEMP_DIR now req d0 = (Resolve_failed ''No output file'', d1)"
    if "truthy (resolving_input req)
        \<and> exec (resolving_invocation TEMP_DIR now req) d0 = (Inr out, d1)
        \<and> (\<forall>g \<in> set (readdirSync d1). \<not> startsWith g (job_id now))"
  proof -
    from that have "resolve_output (job_id now) d1 = Inl ''No output file''"
      by (simp add: resolve_output_Inl)
    with that show ?thesis by (simp add: download_resolving_after_exec)
  qed
qed

theorem resolve_output_first_match_witness:
  "resolve_output ''yt-1700000000000''
     [(''yt-1699999999999.mp4'', \<lparr>mtimeMs = 1699999999999, size = 77, unlinkable = True\<rparr>),
      (''yt-1700000000000.mp4'', \<lparr>mtimeMs = 1700000000900, size = 5000000, unlinkable = True\<rparr>)]
     = Inr ''yt-1700000000000.mp4''
   \<and> startsWith ''yt-1700000000000.mp4'' ''yt-1700000000000''
   \<and> \<not> startsWith ''yt-1699999999999.mp4'' ''yt-1700000000000''
   \<and> truthy (resolving_input
        \<lparr>req_url = Some ''https://youtu.be/dQw4w9WgXcQ'', req_search = None, req_type = None,
         req_quality = None, req_formatId = None\<rparr>)
   \<and> download_resolving
       (tool_run ''yt-1699999999999.mp4''
          \<lparr>mtimeMs = 1699999999999, size = 77, unlinkable = True\<rparr> (Inr []))
       ''/app/temp'' 1700000000000
       \<lparr>req_url = Some ''https://youtu.be/dQw4w9WgXcQ'', req_search = None, req_type = None,
        req_quality = None, req_formatId = None\<rparr> []
     = (Resolve_failed ''No output file'',
        [(''yt-1699999999999.mp4'', \<lparr>mtimeMs = 1699999999999, size = 77, unlinkable = True\<rparr>)])"
proof -
  have run: "resolve_output ''yt-1700000000000''
     [(''yt-1699999999999.mp4'', \<lparr>mtimeMs = 1699999999999, size = 77, unlinkable = True\<rparr>),
      (''yt-1700000000000.mp4'', \<lparr>mtimeMs = 1700000000900, size = 5000000, unlinkable = True\<rparr>)]
     = Inr ''yt-1700000000000.mp4''"
    by (simp add: resolve_output_def readdirSync_def)
  from resolve_output_first_match [THEN conjunct1, rule_format, OF run]
  have first: "startsWith ''yt-1700000000000.mp4'' ''yt-1700000000000''" by blast
  have other: "\<not> startsWith ''yt-1699999999999.mp4'' ''yt-1700000000000''" by simp
  have input: "truthy (resolving_input
        \<lparr>req_url = Some ''https://youtu.be/dQw4w9WgXcQ'', req_search = None, req_type = None,
         req_quality = None, req_formatId = None\<rparr>)"
    by (simp add: resolving_input_def normalizeUrl_shorts_def match_id_plus_here_def truthy_def)
  have job: "download_resolving
       (tool_run ''yt-1699999999999.mp4''
          \<lparr>mtimeMs = 1699999999999, size = 77, unlinkable = True\<rparr> (Inr []))
       ''/app/temp'' 1700000000000
       \<lparr>req_url = Some ''https://youtu.be/dQw4w9WgXcQ'', req_search = None, req_type = None,
        req_quality = None, req_formatId = None\<rparr> []
     = (Resolve_failed ''No output file'',
        [(''yt-1699999999999.mp4'', \<lparr>mtimeMs = 1699999999999, size = 77, unlinkable = True\<rparr>)])"
    by (simp add: resolving_defs eval_defs)
  from run first other input job show ?thesis by (intro conjI)
qed

text \<open>
  Two files start with the job id, a partial file of 1000 bytes listed first and the final
  file of 5000000 bytes: the resolver selects the partial file.
\<close>

theorem resolve_output_largest_counterexample:
  "resolve_output ''yt-1700000000000''
     [(''yt-1700000000000.f137.mp4.part'',
         \<lparr>mtimeMs = 1700000000800, size = 1000, unlinkable = True\<rparr>),
      (''yt-1700000000000.mp4'',
         \<lparr>mtimeMs = 1700000000900, size = 5000000, unlinkable = True\<rparr>)]
     = Inr ''yt-1700000000000.f137.mp4.part''
   \<and> startsWith ''yt-1700000000000.f137.mp4.part'' ''yt-1700000000000''
   \<and> startsWith ''yt-1700000000000.mp4'' ''yt-1700000000000''
   \<and> size \<lparr>mtimeMs = 1700000000800, size = 1000, unlinkable = True\<rparr>
       < size \<lparr>mtimeMs = 1700000000900, size = 5000000, unlinkable = True\<rparr>"
  by (simp add: resolve_output_def readdirSync_def)

text \<open>
  C7.  Two different requests that are accepted in the same millisecond get the same job
  id, hence the same output template: the second run overwrites the file of the first,
  and both responses refer to the same file.
\<close>

theorem job_id_collision:
  "\<lparr>req_url = Some ''https://youtu.be/dQw4w9WgXcQ'', req_search = None, req_type = None,
     req_quality = None, req_formatId = None\<rparr>
   \<noteq> \<lparr>req_url = Some ''https://youtu.be/9bZkp7q19f0'', req_search = None, req_type = None,
     req_quality = None, req_formatId = None\<rparr>
   \<and> job_id 1700000000000 = ''yt-1700000000000''
   \<and> download_resolving
       (tool_run ''yt-1700000000000.mp4''
          \<lparr>mtimeMs = 1700000000900, size = 5000000, unlinkable = True\<rparr> (Inr []))
       ''/app/temp'' 1700000000000
       \<lparr>req_url = Some ''https://youtu.be/dQw4w9WgXcQ'', req_search = None, req_type = None,
        req_quality = None, req_formatId = None\<rparr> []
     = (Resolved ''/file/yt-1700000000000.mp4'',
        [(''yt-1700000000000.mp4'',
          \<lparr>mtimeMs = 1700000000900, size = 5000000, unlinkable = True\<rparr>)])
   \<and> download_resolving
       (tool_run ''yt-1700000000000.mp4''
          \<lparr>mtimeMs = 1700000000950, size = 300000, unlinkable = True\<rparr> (Inr []))
       ''/app/temp'' 1700000000000
       \<lparr>req_url = Some ''https://youtu.be/9bZkp7q19f0'', req_search = None, req_type = None,
        req_quality = None, req_formatId = None\<rparr>
       [(''yt-1700000000000.mp4'',
          \<lparr>mtimeMs = 1700000000900, size = 5000000, unlinkable = True\<rparr>)]
     = (Resolved ''/file/yt-1700000000000.mp4'',
        [(''yt-1700000000000.mp4'',
          \<lparr>mtimeMs = 1700000000950, size = 300000, unlinkable = True\<rparr>)])"
  by (simp add: resolving_defs eval_defs)



section \<open>Caller text in the command line\<close>

text \<open>
  The variant that calls the tool through the \<open>yt-dlp-exec\<close> package builds the argument
  list and hands the list itself to the package; the source is one element of it.
  \<^verbatim>\<open>
  function convertShorts(url) {
    const match = url.match(/youtube\.com\/shorts\/([a-zA-Z0-9_-]+)/);
    if (match) return `https://www.youtube.com/watch?v=${match[1]}`;
    return url;
  }
    ...
    url = convertShorts(url);
    ...
    const args = [ url, '--force-ipv4', '--geo-bypass', '--no-playlist', '--hls-prefer-native',
      '--concurrent-fragments', '5', '--no-progress', '-o', filepath ];
    if (type === 'audio') { args.push('-x', '--audio-format', 'mp3'); }
    await ytld(args, { stdio: 'ignore' });
  \<close>
\<close>

definition convertShorts :: "string \<Rightarrow> string" where
  "convertShorts url =
     (case search_id_plus ''youtube.com/shorts/'' url of
        Some g \<Rightarrow> ''https://www.youtube.com/watch?v='' @ g
      | None \<Rightarrow> url)"

definition ytld_args :: "string \<Rightarrow> string \<Rightarrow> string option \<Rightarrow> string list" where
  "ytld_args url filepath type =
     [url, ''--force-ipv4'', ''--geo-bypass'', ''--no-playlist'', ''--hls-prefer-native'',
      ''--concurrent-fragments'', ''5'', ''--no-progress'', ''-o'', filepath]
     @ (if type = Some ''audio'' then [''-x'', ''--audio-format'', ''mp3''] else [])"

text \<open>
  A run of the shell for the examples below: it fails at once, and the message of its
  error is the command string it was given.
\<close>

definition tool_echo :: exec where
  "tool_echo cmd d = (Inl \<lparr>err_message = cmd, err_stderr = []\<rparr>, d)"

text \<open>
  C1.  The three handlers that run the tool with \<open>exec\<close> hand the shell one command
  string with the caller's source inside.  \<open>executeYtDlp\<close> removes the blocked characters
  and quotes each argument, but keeps a double quote of the source, which ends the
  quoting: the source below becomes the words \<open>https://example.com/v\<close>, \<open>--exec\<close> and
  \<open>echo\<close>.  The handler of \<open>server.js\<close> and the handler with the search download put
  the source into the string as it is, \<open>$(id)\<close> included.  The handler that calls
  \<open>yt-dlp-exec\<close> keeps the same source as one element of its argument list.
\<close>

theorem shell_command_interpolates_source:
  \<open>download tool_echo ''/app/temp'' ''1b9d6bcd-bbfd-4b2d-9b5d-ab8dfbbd4bed'' 1700000000000
     \<lparr>req_url = Some ''https://example.com/v" --exec "echo'', req_search = None,
      req_type = None, req_quality = None, req_formatId = None\<rparr> []
   = (Download_failed
        ''yt-dlp failed: yt-dlp "https://example.com/v" --exec "echo" "--no-playlist" "--geo-bypass" "--no-warnings" "--quiet" "--force-ipv4" "--concurrent-fragments" "5" "-o" "/app/temp/1b9d6bcd-1700000000000.mp4" "-f" "best[height=720]"'',
      [])
   \<and> download_simple tool_echo ''/app/temp'' ''1b9d6bcd-bbfd-4b2d-9b5d-ab8dfbbd4bed''
     \<lparr>req_url = Some ''https://example.com/$(id)'', req_search = None,
      req_type = None, req_quality = None, req_formatId = None\<rparr> []
   = (Download_failed
        ''yt-dlp -f "best[height<=720]" -o "/app/temp/1b9d6bcd-bbfd-4b2d-9b5d-ab8dfbbd4bed.mp4" "https://example.com/$(id)"'',
      [])
   \<and> download_resolving tool_echo ''/app/temp'' 1700000000000
     \<lparr>req_url = None, req_search = Some ''$(id)'',
      req_type = None, req_quality = None, req_formatId = None\<rparr> []
   = (Resolve_failed
        ''yt-dlp --force-ipv4 --user-agent "Mozilla/5.0 (Macintosh; Intel Mac OS X 10_15_7) Safari/605.1.15" --extractor-args "youtube:player_client=web_safari" --geo-bypass --no-playlist --hls-prefer-native --concurrent-fragments 8 --no-progress -f "bv*[protocol=m3u8]/best"  -o "/app/temp/yt-1700000000000.%(ext)s" "ytsearch1:$(id)"'',
      [])
   \<and> ytld_args (convertShorts ''https://example.com/v" --exec "echo'')
       ''/app/downloads/1b9d6bcd-bbfd-4b2d-9b5d-ab8dfbbd4bed.mp4'' None
   = [''https://example.com/v" --exec "echo'', ''--force-ipv4'', ''--geo-bypass'',
      ''--no-playlist'', ''--hls-prefer-native'', ''--concurrent-fragments'', ''5'',
      ''--no-progress'', ''-o'', ''/app/downloads/1b9d6bcd-bbfd-4b2d-9b5d-ab8dfbbd4bed.mp4'']\<close>
  by (simp add: eval_defs resolving_defs tool_echo_def convertShorts_def ytld_args_def)

end
